theory Spec2Isabelle
  imports Main
begin

section \<open>Configuration data\<close>

text \<open>
  The program is \<^verbatim>\<open>src/index.ts\<close>. JavaScript's \<^verbatim>\<open>undefined\<close> is \<open>None\<close>: an
  optional field of type \<open>T\<close> is a \<open>T option\<close>, and optional chaining \<^verbatim>\<open>a?.b\<close> is
  \<open>Option.bind\<close>. A thrown \<^verbatim>\<open>Error\<close> (or a rejected promise's reason) is a value of
  \<open>error\<close>.
\<close>

datatype error = Error string

text \<open>An esbuild plugin is an object with a name and a setup callback; the callback
  is never called by this program, so a plugin is represented by its name.\<close>

datatype plugin = Plugin string

text \<open>
  Modelled from the spec: the \<^verbatim>\<open>Config\<close> type that \<^verbatim>\<open>index.ts\<close> imports from
  \<^verbatim>\<open>./config\<close>, a file that is not among the sources. The spec's data model lists its
  fields, all optional: \<^verbatim>\<open>outDir\<close>, \<^verbatim>\<open>tsConfigFile\<close>, \<^verbatim>\<open>watch\<close>, an
  \<^verbatim>\<open>esbuild\<close> object with \<^verbatim>\<open>entryPoints\<close>, \<^verbatim>\<open>target\<close>, \<^verbatim>\<open>minify\<close>,
  \<^verbatim>\<open>plugins\<close>, and an \<^verbatim>\<open>assets\<close> object with \<^verbatim>\<open>baseDir\<close> and
  \<^verbatim>\<open>filePatterns\<close>.
\<close>

record EsbuildConfig =
  esb_entryPoints :: "string list option"
  esb_target :: "string option"
  esb_minify :: "bool option"
  esb_plugins :: "plugin list option"

record AssetsConfig =
  ast_baseDir :: "string option"
  ast_filePatterns :: "string list option"

record Config =
  cfg_outDir :: "string option"
  cfg_tsConfigFile :: "string option"
  cfg_watch :: "bool option"
  cfg_esbuild :: "EsbuildConfig option"
  cfg_assets :: "AssetsConfig option"

text \<open>
  What \<^verbatim>\<open>ts.parseJsonConfigFileContent\<close> returns, as far as the program reads it:
  the compiler options, the resolved file names and the raw JSON of the configuration
  file (of which only \<^verbatim>\<open>compilerOptions.target\<close> is read, taken to be a string when it
  is there).
\<close>

record CompilerOptions =
  co_outDir :: "string option"
  co_sourceMap :: "bool option"
  co_inlineSources :: "bool option"
  co_inlineSourceMap :: "bool option"

record RawCompilerOptions =
  rco_target :: "string option"

record RawConfig =
  raw_compilerOptions :: "RawCompilerOptions option"

record TSConfig =
  ts_options :: CompilerOptions
  ts_fileNames :: "string list"
  ts_raw :: "RawConfig option"

text \<open>The TypeScript services \<^verbatim>\<open>getTSConfig\<close> calls, and the working directory it
  reads once at start-up: \<open>findConfigFile\<close> is \<^verbatim>\<open>ts.findConfigFile(cwd, ts.sys.fileExists, name)\<close>
  as a function of the name, \<open>parseConfigFile\<close> is \<^verbatim>\<open>ts.readConfigFile\<close> followed by
  \<^verbatim>\<open>ts.parseJsonConfigFileContent\<close> as a function of the located path.\<close>

record ts_services =
  cwd :: string
  findConfigFile :: "string \<Rightarrow> string option"
  parseConfigFile :: "string \<Rightarrow> TSConfig"

section \<open>Truthiness and the \<^verbatim>\<open>||\<close> operator\<close>

text \<open>
  \<^verbatim>\<open>a || b\<close> is \<open>a\<close> when \<open>a\<close> is truthy and \<open>b\<close> otherwise. \<^verbatim>\<open>undefined\<close>,
  \<^verbatim>\<open>false\<close> and the empty string are falsy; every array, the empty one too, is truthy.
\<close>

definition truthy_bool :: "bool option \<Rightarrow> bool" where
  "truthy_bool v = (case v of None \<Rightarrow> False | Some b \<Rightarrow> b)"

definition truthy_string :: "string option \<Rightarrow> bool" where
  "truthy_string v = (case v of None \<Rightarrow> False | Some s \<Rightarrow> s \<noteq> [])"

definition or_string :: "string option \<Rightarrow> string option \<Rightarrow> string option" where
  "or_string a b = (if truthy_string a then a else b)"

definition or_string_default :: "string option \<Rightarrow> string \<Rightarrow> string" where
  "or_string_default a d = (case a of None \<Rightarrow> d | Some s \<Rightarrow> if s \<noteq> [] then s else d)"

definition or_bool_default :: "bool option \<Rightarrow> bool \<Rightarrow> bool" where
  "or_bool_default a d = (case a of None \<Rightarrow> d | Some b \<Rightarrow> if b then b else d)"

definition or_list_default :: "'a list option \<Rightarrow> 'a list \<Rightarrow> 'a list" where
  "or_list_default a d = (case a of None \<Rightarrow> d | Some xs \<Rightarrow> xs)"

section \<open>Resolving the build metadata\<close>

subsection \<open>\<^verbatim>\<open>getTSConfig\<close>\<close>

definition getTSConfig :: "ts_services \<Rightarrow> string option \<Rightarrow> error + (TSConfig \<times> string)" where
  "getTSConfig ts arg =
     (let name = (case arg of None \<Rightarrow> ''tsconfig.json'' | Some n \<Rightarrow> n) in
      case findConfigFile ts name of
        None \<Rightarrow> Inl (Error (''tsconfig.json not found in the current directory! '' @ cwd ts))
      | Some tsConfigFile \<Rightarrow>
          if tsConfigFile = []
          then Inl (Error (''tsconfig.json not found in the current directory! '' @ cwd ts))
          else Inr (parseConfigFile ts tsConfigFile, tsConfigFile))"

subsection \<open>\<^verbatim>\<open>esBuildSourceMapOptions\<close>\<close>

text \<open>The function returns \<^verbatim>\<open>false\<close>, the string \<^verbatim>\<open>"inline"\<close> or the value of
  \<^verbatim>\<open>sourceMap\<close> as it found it, which may be \<^verbatim>\<open>undefined\<close>: \<open>SourcemapValue v\<close> is the
  boolean-or-undefined \<open>v\<close>.\<close>

datatype sourcemap = SourcemapInline | SourcemapValue "bool option"

definition esBuildSourceMapOptions :: "TSConfig \<Rightarrow> sourcemap" where
  "esBuildSourceMapOptions tsConfig =
     (let sourceMap = co_sourceMap (ts_options tsConfig);
          inlineSources = co_inlineSources (ts_options tsConfig);
          inlineSourceMap = co_inlineSourceMap (ts_options tsConfig) in
      if truthy_bool inlineSources \<and> \<not> truthy_bool inlineSourceMap \<and> \<not> truthy_bool sourceMap
      then SourcemapValue (Some False)
      else if truthy_bool sourceMap \<and> truthy_bool inlineSourceMap
      then SourcemapValue (Some False)
      else if truthy_bool inlineSourceMap
      then SourcemapInline
      else SourcemapValue sourceMap)"

subsection \<open>\<^verbatim>\<open>getBuildMetadata\<close>\<close>

record BuildOptions =
  bo_outdir :: string
  bo_entryPoints :: "string list"
  bo_sourcemap :: sourcemap
  bo_target :: string
  bo_minify :: bool
  bo_plugins :: "plugin list"
  bo_tsconfig :: string

record AssetsOptions =
  ao_baseDir :: string
  ao_outDir :: string
  ao_patterns :: "string list"

record BuildMetadata =
  md_outDir :: string
  md_esbuildOptions :: BuildOptions
  md_assetsOptions :: AssetsOptions

definition getBuildMetadata :: "ts_services \<Rightarrow> Config \<Rightarrow> error + BuildMetadata" where
  "getBuildMetadata ts userConfig =
     (case getTSConfig ts (cfg_tsConfigFile userConfig) of
        Inl e \<Rightarrow> Inl e
      | Inr (tsConfig, tsConfigFile) \<Rightarrow>
          let outDir =
                or_string_default
                  (or_string (cfg_outDir userConfig) (co_outDir (ts_options tsConfig))) ''dist'';
              esbuildEntryPoints =
                or_list_default (Option.bind (cfg_esbuild userConfig) esb_entryPoints) [];
              srcFiles = ts_fileNames tsConfig @ esbuildEntryPoints;
              sourcemap = esBuildSourceMapOptions tsConfig;
              target =
                or_string_default
                  (or_string (Option.bind (cfg_esbuild userConfig) esb_target)
                     (Option.bind (Option.bind (ts_raw tsConfig) raw_compilerOptions) rco_target))
                  ''es6'';
              minify = or_bool_default (Option.bind (cfg_esbuild userConfig) esb_minify) False;
              plugins = or_list_default (Option.bind (cfg_esbuild userConfig) esb_plugins) [];
              esbuildOptions =
                \<lparr>bo_outdir = outDir, bo_entryPoints = srcFiles, bo_sourcemap = sourcemap,
                 bo_target = target, bo_minify = minify, bo_plugins = plugins,
                 bo_tsconfig = tsConfigFile\<rparr>;
              assetPatterns =
                or_list_default (Option.bind (cfg_assets userConfig) ast_filePatterns) [''**''];
              assetsOptions =
                \<lparr>ao_baseDir =
                   or_string_default (Option.bind (cfg_assets userConfig) ast_baseDir) ''src'',
                 ao_outDir = outDir,
                 ao_patterns = assetPatterns @ [''!**/*.{ts,js,tsx,jsx}'']\<rparr>
          in Inr \<lparr>md_outDir = outDir, md_esbuildOptions = esbuildOptions,
                  md_assetsOptions = assetsOptions\<rparr>)"

text \<open>The 4-branch rule of the specification, written from its words: a flag ``is
  set'' when it is present and true.\<close>

definition is_set :: "bool option \<Rightarrow> bool" where
  "is_set v = (v = Some True)"

definition sourceMapRule :: "bool option \<Rightarrow> bool option \<Rightarrow> bool option \<Rightarrow> sourcemap" where
  "sourceMapRule sourceMap inlineSourceMap inlineSources =
     (if is_set inlineSources \<and> \<not> (is_set inlineSourceMap \<or> is_set sourceMap)
      then SourcemapValue (Some False)
      else if is_set sourceMap \<and> is_set inlineSourceMap then SourcemapValue (Some False)
      else if is_set inlineSourceMap then SourcemapInline
      else SourcemapValue sourceMap)"

section \<open>The services the program calls and the effects it has on them\<close>

text \<open>
  \<^verbatim>\<open>buildSourceFiles\<close> and \<^verbatim>\<open>watchBuild\<close> call esbuild's \<^verbatim>\<open>build\<close> with the resolved
  options spread into an object that adds \<^verbatim>\<open>bundle\<close>, \<^verbatim>\<open>format\<close>, \<^verbatim>\<open>platform\<close> and,
  in watch mode only, \<^verbatim>\<open>incremental\<close>. The resolved options have none of these keys,
  so the spread overrides nothing.
\<close>

record esbuild_call =
  call_options :: BuildOptions
  call_bundle :: bool
  call_format :: string
  call_platform :: string
  call_incremental :: "bool option"

text \<open>\<^verbatim>\<open>cpy(patterns, destination, {cwd, parents})\<close>.\<close>

record cpy_call =
  cpy_patterns :: "string list"
  cpy_destination :: string
  cpy_cwd :: string
  cpy_parents :: bool

text \<open>
  The libraries are parameters of the model. \<open>path_relative\<close> is Node's
  \<^verbatim>\<open>path.relative\<close>; \<open>rimraf_sync\<close> returns the error it throws, if it throws;
  \<open>esbuild_build\<close> and \<open>cpy\<close> give how the promise of a call settles: rejected with
  an error (\<open>Inl\<close>) or fulfilled with a result (\<open>Inr\<close>), of an opaque type each.
\<close>

record ('b, 'c) services =
  path_relative :: "string \<Rightarrow> string \<Rightarrow> string"
  rimraf_sync :: "string \<Rightarrow> error option"
  esbuild_build :: "esbuild_call \<Rightarrow> error + 'b"
  cpy :: "cpy_call \<Rightarrow> error + 'c"

text \<open>
  The trace of a run: the calls the program makes, in the order it makes them.
  \<open>BuildDone\<close> and \<open>CpyDone\<close> mark the points where an \<^verbatim>\<open>await\<close> on the build's or
  the copy's promise resumes, which it does only when the promise is fulfilled;
  \<open>ConsoleLogIgnored\<close> is \<^verbatim>\<open>console.log({ ignored })\<close>.
\<close>

datatype effect =
    is_RimrafSync: RimrafSync string
  | ConsoleTime string
  | ConsoleTimeEnd string
  | ConsoleLogIgnored string
  | is_BuildStart: BuildStart esbuild_call
  | BuildDone
  | is_CpyStart: CpyStart cpy_call
  | CpyDone
  | is_ChokidarWatch: ChokidarWatch "string list" string

subsection \<open>\<^verbatim>\<open>buildSourceFiles\<close> and \<^verbatim>\<open>copyNonSourceFiles\<close>\<close>

text \<open>
  An \<^verbatim>\<open>async\<close> function runs synchronously up to its first \<^verbatim>\<open>await\<close>. Both helpers
  are of the form \<^verbatim>\<open>return await call(...)\<close>: calling one makes the library call at once
  and returns a promise that settles as the library's promise does. The model returns the
  effects of the synchronous part and the settlement.
\<close>

definition buildSourceFiles :: "('b, 'c) services \<Rightarrow> BuildOptions \<Rightarrow> effect list \<times> (error + 'b)" where
  "buildSourceFiles sv esbuildOptions =
     (let call = \<lparr>call_options = esbuildOptions, call_bundle = False, call_format = ''cjs'',
                  call_platform = ''node'', call_incremental = None\<rparr>
      in ([BuildStart call], esbuild_build sv call))"

definition copyNonSourceFiles :: "('b, 'c) services \<Rightarrow> AssetsOptions \<Rightarrow> effect list \<times> (error + 'c)" where
  "copyNonSourceFiles sv assetsOptions =
     (let relativeOutDir = path_relative sv (ao_baseDir assetsOptions) (ao_outDir assetsOptions);
          call = \<lparr>cpy_patterns = ao_patterns assetsOptions, cpy_destination = relativeOutDir,
                  cpy_cwd = ao_baseDir assetsOptions, cpy_parents = True\<rparr>
      in ([CpyStart call], cpy sv call))"

subsection \<open>\<^verbatim>\<open>normalBuild\<close>\<close>

text \<open>
  \<^verbatim>\<open>Promise.all([p0, p1])\<close> as ECMAScript defines it: the returned promise is rejected
  with the reason of the first of its promises to be rejected, at that moment, and is
  fulfilled with both values once both promises are fulfilled. The two promises settle in
  an order the program does not control; the model is given the tasks that have settled so
  far, in the order they did, and returns the state of the combined promise then.
\<close>

datatype task = BuildTask | CopyTask

datatype 'a promise = Pending | Fulfilled 'a | Rejected error

fun promise_all ::
  "(error + 'b) \<Rightarrow> (error + 'c) \<Rightarrow> 'b option \<Rightarrow> 'c option \<Rightarrow> task list \<Rightarrow> ('b \<times> 'c) promise" where
  "promise_all pb pc rb rc [] =
     (case (rb, rc) of (Some b, Some c) \<Rightarrow> Fulfilled (b, c) | _ \<Rightarrow> Pending)"
| "promise_all pb pc rb rc (BuildTask # settled) =
     (case pb of Inl e \<Rightarrow> Rejected e | Inr b \<Rightarrow> promise_all pb pc (Some b) rc settled)"
| "promise_all pb pc rb rc (CopyTask # settled) =
     (case pc of Inl e \<Rightarrow> Rejected e | Inr c \<Rightarrow> promise_all pb pc rb (Some c) settled)"

text \<open>\<^verbatim>\<open>rimraf.sync\<close> runs first and synchronously; when it throws, the \<^verbatim>\<open>async\<close>
  function's promise is rejected and nothing else is started. Otherwise both helpers are
  called, one after the other, before \<^verbatim>\<open>Promise.all\<close> waits for anything.\<close>

definition normalBuild ::
  "('b, 'c) services \<Rightarrow> string \<Rightarrow> BuildOptions \<Rightarrow> AssetsOptions \<Rightarrow> task list
     \<Rightarrow> effect list \<times> ('b \<times> 'c) promise" where
  "normalBuild sv outDir esbuildOptions assetsOptions settled =
     (case rimraf_sync sv outDir of
        Some e \<Rightarrow> ([RimrafSync outDir], Rejected e)
      | None \<Rightarrow>
          (case buildSourceFiles sv esbuildOptions of
             (tb, pb) \<Rightarrow>
               (case copyNonSourceFiles sv assetsOptions of
                  (tc, pc) \<Rightarrow>
                    ([RimrafSync outDir] @ tb @ tc, promise_all pb pc None None settled))))"

subsection \<open>\<^verbatim>\<open>watchBuild\<close>\<close>

text \<open>What a watcher does on a \<^verbatim>\<open>change\<close> event: the asset watcher copies the assets
  again, the code watcher calls \<^verbatim>\<open>rebuild\<close> on the handle the initial build returned.\<close>

datatype 'b handler = CopyAssets AssetsOptions | Rebuild 'b

record 'b watcher =
  watch_paths :: "string list"
  watch_ignored :: string
  watch_on_change :: "'b handler"

record 'b watchers =
  assetWatcher :: "'b watcher"
  codeWatcher :: "'b watcher"

definition watchBuild ::
  "('b, 'c) services \<Rightarrow> string \<Rightarrow> BuildOptions \<Rightarrow> AssetsOptions
     \<Rightarrow> effect list \<times> (error + 'b watchers)" where
  "watchBuild sv outDir esbuildOptions assetsOptions =
     (case rimraf_sync sv outDir of
        Some e \<Rightarrow> ([RimrafSync outDir], Inl e)
      | None \<Rightarrow>
          (let call = \<lparr>call_options = esbuildOptions, call_bundle = False, call_format = ''cjs'',
                       call_platform = ''node'', call_incremental = Some True\<rparr>;
               t1 = [RimrafSync outDir, ConsoleTime ''Initial build in'', BuildStart call]
           in (case esbuild_build sv call of
                 Inl e \<Rightarrow> (t1, Inl e)
               | Inr builder \<Rightarrow>
                   (let t2 = t1 @ [BuildDone, ConsoleTimeEnd ''Initial build in'',
                                   ConsoleTime ''Initial assets copied in'']
                    in (case copyNonSourceFiles sv assetsOptions of
                          (tc, Inl e) \<Rightarrow> (t2 @ tc, Inl e)
                        | (tc, Inr copied) \<Rightarrow>
                            (let ignored = outDir @ ''/**'' in
                             (t2 @ tc @
                              [CpyDone, ConsoleTimeEnd ''Initial assets copied in'',
                               ConsoleLogIgnored ignored,
                               ChokidarWatch (ao_patterns assetsOptions) ignored,
                               ChokidarWatch (bo_entryPoints esbuildOptions) ignored],
                              Inr \<lparr>assetWatcher =
                                     \<lparr>watch_paths = ao_patterns assetsOptions,
                                      watch_ignored = ignored,
                                      watch_on_change = CopyAssets assetsOptions\<rparr>,
                                   codeWatcher =
                                     \<lparr>watch_paths = bo_entryPoints esbuildOptions,
                                      watch_ignored = ignored,
                                      watch_on_change = Rebuild builder\<rparr>\<rparr>)))))))"

text \<open>\<open>happens_before a b tr\<close>: in the trace \<open>tr\<close>, \<open>a\<close> occurs before the first \<open>b\<close>.\<close>

definition happens_before :: "effect \<Rightarrow> effect \<Rightarrow> effect list \<Rightarrow> bool" where
  "happens_before a b tr = (a \<in> set (takeWhile (\<lambda>e. e \<noteq> b) tr))"

section \<open>Node's \<^verbatim>\<open>path.relative\<close> on a POSIX system\<close>

text \<open>
  \<^verbatim>\<open>path.relative(from, to)\<close> resolves both paths against the working directory,
  drops the directories they share and climbs out of what is left of \<open>from\<close>. Paths are
  compared directory by directory: a resolved path is the list of its directory names.
\<close>

fun split_from :: "char \<Rightarrow> string \<Rightarrow> string \<Rightarrow> string list" where
  "split_from c cur [] = [cur]"
| "split_from c cur (x # xs) =
     (if x = c then cur # split_from c [] xs else split_from c (cur @ [x]) xs)"

definition split_on :: "char \<Rightarrow> string \<Rightarrow> string list" where
  "split_on c s = split_from c [] s"

text \<open>Empty names and \<^verbatim>\<open>.\<close> are skipped, \<^verbatim>\<open>..\<close> removes the last name kept (at
  the root there is none, and it is skipped).\<close>

fun normalizeString :: "string list \<Rightarrow> string list \<Rightarrow> string list" where
  "normalizeString res [] = res"
| "normalizeString res (s # ss) =
     (if s = [] \<or> s = ''.'' then normalizeString res ss
      else if s = ''..'' then normalizeString (butlast res) ss
      else normalizeString (res @ [s]) ss)"

definition posix_resolve :: "string \<Rightarrow> string \<Rightarrow> string list" where
  "posix_resolve wd p =
     normalizeString []
       (split_on CHR ''/'' (if p \<noteq> [] \<and> hd p = CHR ''/'' then p else wd @ ''/'' @ p))"

fun drop_common :: "string list \<Rightarrow> string list \<Rightarrow> string list \<times> string list" where
  "drop_common (x # xs) (y # ys) = (if x = y then drop_common xs ys else (x # xs, y # ys))"
| "drop_common xs ys = (xs, ys)"

fun join_path :: "string list \<Rightarrow> string" where
  "join_path [] = []"
| "join_path [s] = s"
| "join_path (s # ss) = s @ ''/'' @ join_path ss"

definition posix_relative :: "string \<Rightarrow> string \<Rightarrow> string \<Rightarrow> string" where
  "posix_relative wd from to =
     (if from = to then []
      else (case drop_common (posix_resolve wd from) (posix_resolve wd to) of
              (f, t) \<Rightarrow> join_path (replicate (length f) ''..'' @ t)))"

section \<open>Reading the user's and the compiler's values\<close>

text \<open>The expressions \<^verbatim>\<open>userConfig.esbuild?.entryPoints\<close>,
  \<^verbatim>\<open>userConfig.esbuild?.target\<close>, \<^verbatim>\<open>userConfig.esbuild?.minify\<close>,
  \<^verbatim>\<open>userConfig.esbuild?.plugins\<close>, \<^verbatim>\<open>userConfig.assets?.baseDir\<close>,
  \<^verbatim>\<open>userConfig.assets?.filePatterns\<close> and \<^verbatim>\<open>tsConfig?.raw?.compilerOptions?.target\<close>,
  named so that properties can speak of ``the user's target''.\<close>

definition user_entryPoints :: "Config \<Rightarrow> string list option" where
  "user_entryPoints u = Option.bind (cfg_esbuild u) esb_entryPoints"

definition user_target :: "Config \<Rightarrow> string option" where
  "user_target u = Option.bind (cfg_esbuild u) esb_target"

definition user_minify :: "Config \<Rightarrow> bool option" where
  "user_minify u = Option.bind (cfg_esbuild u) esb_minify"

definition user_plugins :: "Config \<Rightarrow> plugin list option" where
  "user_plugins u = Option.bind (cfg_esbuild u) esb_plugins"

definition user_baseDir :: "Config \<Rightarrow> string option" where
  "user_baseDir u = Option.bind (cfg_assets u) ast_baseDir"

definition user_filePatterns :: "Config \<Rightarrow> string list option" where
  "user_filePatterns u = Option.bind (cfg_assets u) ast_filePatterns"

definition compiler_target :: "TSConfig \<Rightarrow> string option" where
  "compiler_target tsConfig =
     Option.bind (Option.bind (ts_raw tsConfig) raw_compilerOptions) rco_target"

text \<open>The error a task's promise is rejected with, if it is rejected.\<close>

definition failure :: "(error + 'b) \<Rightarrow> (error + 'c) \<Rightarrow> task \<Rightarrow> error option" where
  "failure pb pc t =
     (case t of
        BuildTask \<Rightarrow> (case pb of Inl e \<Rightarrow> Some e | Inr b \<Rightarrow> None)
      | CopyTask \<Rightarrow> (case pc of Inl e \<Rightarrow> Some e | Inr c \<Rightarrow> None))"

section \<open>Example inputs\<close>

definition example_tsconfig :: TSConfig where
  "example_tsconfig =
     \<lparr>ts_options = \<lparr>co_outDir = Some ''build'', co_sourceMap = None,
                    co_inlineSources = Some True, co_inlineSourceMap = Some True\<rparr>,
      ts_fileNames = [''a.ts'', ''b.ts''],
      ts_raw = Some \<lparr>raw_compilerOptions = Some \<lparr>rco_target = Some ''es2017''\<rparr>\<rparr>\<rparr>"

definition example_ts :: ts_services where
  "example_ts =
     \<lparr>cwd = ''/proj'',
      findConfigFile =
        (\<lambda>name. if name = ''tsconfig.json'' then Some ''/proj/tsconfig.json'' else None),
      parseConfigFile = (\<lambda>file. example_tsconfig)\<rparr>"

definition example_config :: Config where
  "example_config =
     \<lparr>cfg_outDir = None, cfg_tsConfigFile = None, cfg_watch = None,
      cfg_esbuild = Some \<lparr>esb_entryPoints = Some [''extra.ts''], esb_target = None,
                          esb_minify = None, esb_plugins = None\<rparr>,
      cfg_assets = Some \<lparr>ast_baseDir = None, ast_filePatterns = Some []\<rparr>\<rparr>"

text \<open>A user configuration that sets every field, and one that sets none; TypeScript
  services whose configuration file has neither \<^verbatim>\<open>outDir\<close> nor \<^verbatim>\<open>target\<close>.\<close>

definition full_config :: Config where
  "full_config =
     \<lparr>cfg_outDir = Some ''out'', cfg_tsConfigFile = None, cfg_watch = Some True,
      cfg_esbuild = Some \<lparr>esb_entryPoints = None, esb_target = Some ''es2020'',
                          esb_minify = Some True, esb_plugins = Some [Plugin ''p'']\<rparr>,
      cfg_assets = Some \<lparr>ast_baseDir = Some ''assets'',
                         ast_filePatterns = Some [''**/*.json'']\<rparr>\<rparr>"

definition blank_config :: Config where
  "blank_config =
     \<lparr>cfg_outDir = None, cfg_tsConfigFile = None, cfg_watch = None,
      cfg_esbuild = None, cfg_assets = None\<rparr>"

definition bare_tsconfig :: TSConfig where
  "bare_tsconfig =
     \<lparr>ts_options = \<lparr>co_outDir = None, co_sourceMap = None, co_inlineSources = None,
                    co_inlineSourceMap = None\<rparr>,
      ts_fileNames = [''index.ts''], ts_raw = None\<rparr>"

definition bare_ts :: ts_services where
  "bare_ts =
     \<lparr>cwd = ''/proj'',
      findConfigFile =
        (\<lambda>name. if name = ''tsconfig.json'' then Some ''/proj/tsconfig.json'' else None),
      parseConfigFile = (\<lambda>file. bare_tsconfig)\<rparr>"

text \<open>A user configuration whose \<^verbatim>\<open>outDir\<close> is present and is the empty string.\<close>

definition empty_outDir_config :: Config where
  "empty_outDir_config =
     \<lparr>cfg_outDir = Some [], cfg_tsConfigFile = None, cfg_watch = None,
      cfg_esbuild = None, cfg_assets = None\<rparr>"

definition example_esbuildOptions :: BuildOptions where
  "example_esbuildOptions =
     \<lparr>bo_outdir = ''dist'', bo_entryPoints = [''src/a.ts''],
      bo_sourcemap = SourcemapValue None, bo_target = ''es6'', bo_minify = False,
      bo_plugins = [], bo_tsconfig = ''/proj/tsconfig.json''\<rparr>"

definition example_assetsOptions :: AssetsOptions where
  "example_assetsOptions =
     \<lparr>ao_baseDir = ''src'', ao_outDir = ''dist'',
      ao_patterns = [''**'', ''!**/*.{ts,js,tsx,jsx}'']\<rparr>"

text \<open>Services where every call succeeds, and services whose build is rejected.\<close>

definition example_services :: "(string, string list) services" where
  "example_services =
     \<lparr>path_relative = posix_relative ''/proj'',
      rimraf_sync = (\<lambda>dir. None),
      esbuild_build = (\<lambda>call. Inr ''handle''),
      cpy = (\<lambda>call. Inr [''dist/data.json''])\<rparr>"

definition failing_build_services :: "(string, string list) services" where
  "failing_build_services =
     \<lparr>path_relative = posix_relative ''/proj'',
      rimraf_sync = (\<lambda>dir. None),
      esbuild_build = (\<lambda>call. Inl (Error ''build failed'')),
      cpy = (\<lambda>call. Inr [''dist/data.json''])\<rparr>"

text \<open>A compiler configuration with the three source-map flags given as booleans, in
  the order \<^verbatim>\<open>sourceMap\<close>, \<^verbatim>\<open>inlineSourceMap\<close>, \<^verbatim>\<open>inlineSources\<close>.\<close>

definition tsconfig_with_flags :: "bool \<Rightarrow> bool \<Rightarrow> bool \<Rightarrow> TSConfig" where
  "tsconfig_with_flags sourceMap inlineSourceMap inlineSources =
     \<lparr>ts_options = \<lparr>co_outDir = None, co_sourceMap = Some sourceMap,
                    co_inlineSources = Some inlineSources,
                    co_inlineSourceMap = Some inlineSourceMap\<rparr>,
      ts_fileNames = [], ts_raw = None\<rparr>"

text \<open>What \<^verbatim>\<open>getBuildMetadata\<close> computes for \<open>example_config\<close>.\<close>

definition example_metadata :: BuildMetadata where
  "example_metadata =
     \<lparr>md_outDir = ''build'',
      md_esbuildOptions =
        \<lparr>bo_outdir = ''build'', bo_entryPoints = [''a.ts'', ''b.ts'', ''extra.ts''],
         bo_sourcemap = SourcemapInline, bo_target = ''es2017'', bo_minify = False,
         bo_plugins = [], bo_tsconfig = ''/proj/tsconfig.json''\<rparr>,
      md_assetsOptions =
        \<lparr>ao_baseDir = ''src'', ao_outDir = ''build'',
         ao_patterns = [''!**/*.{ts,js,tsx,jsx}'']\<rparr>\<rparr>"

text \<open>
  A project in \<^verbatim>\<open>/proj\<close> whose \<^verbatim>\<open>tsconfig.json\<close> sets \<^verbatim>\<open>"outDir": "dist"\<close>:
  \<^verbatim>\<open>ts.parseJsonConfigFileContent\<close> gives the option back as the absolute path
  \<^verbatim>\<open>/proj/dist\<close>, and the file names as absolute paths.
\<close>

definition resolved_tsconfig :: TSConfig where
  "resolved_tsconfig =
     \<lparr>ts_options = \<lparr>co_outDir = Some ''/proj/dist'', co_sourceMap = None,
                    co_inlineSources = None, co_inlineSourceMap = None\<rparr>,
      ts_fileNames = [''/proj/src/index.ts''],
      ts_raw = Some \<lparr>raw_compilerOptions = Some \<lparr>rco_target = None\<rparr>\<rparr>\<rparr>"

definition resolved_ts :: ts_services where
  "resolved_ts =
     \<lparr>cwd = ''/proj'',
      findConfigFile =
        (\<lambda>name. if name = ''tsconfig.json'' then Some ''/proj/tsconfig.json'' else None),
      parseConfigFile = (\<lambda>file. resolved_tsconfig)\<rparr>"

definition resolved_metadata :: BuildMetadata where
  "resolved_metadata =
     \<lparr>md_outDir = ''/proj/dist'',
      md_esbuildOptions =
        \<lparr>bo_outdir = ''/proj/dist'', bo_entryPoints = [''/proj/src/index.ts''],
         bo_sourcemap = SourcemapValue None, bo_target = ''es6'', bo_minify = False,
         bo_plugins = [], bo_tsconfig = ''/proj/tsconfig.json''\<rparr>,
      md_assetsOptions =
        \<lparr>ao_baseDir = ''src'', ao_outDir = ''/proj/dist'',
         ao_patterns = [''**'', ''!**/*.{ts,js,tsx,jsx}'']\<rparr>\<rparr>"

section \<open>Properties of the configuration resolver\<close>

lemmas or_defs =
  or_string_def or_string_default_def or_bool_default_def or_list_default_def truthy_string_def

lemma getBuildMetadata_returns:
  "(\<exists>md. getBuildMetadata ts u = Inr md) \<longleftrightarrow>
   (\<exists>tsConfig f. getTSConfig ts (cfg_tsConfigFile u) = Inr (tsConfig, f))"
  by (auto simp: getBuildMetadata_def Let_def split: sum.splits)

lemma getTSConfig_returns:
  "(\<exists>r. getTSConfig ts arg = Inr r) \<longleftrightarrow>
   (\<exists>f. findConfigFile ts (case arg of None \<Rightarrow> ''tsconfig.json'' | Some n \<Rightarrow> n) = Some f \<and> f \<noteq> [])"
  by (auto simp: getTSConfig_def Let_def split: option.splits)

lemma example_getTSConfig:
  "getTSConfig example_ts None = Inr (example_tsconfig, ''/proj/tsconfig.json'')"
  by (simp add: getTSConfig_def example_ts_def)

lemma getBuildMetadata_example:
  "getBuildMetadata example_ts example_config = Inr example_metadata"
  by (simp add: getBuildMetadata_def Let_def example_config_def example_getTSConfig
      example_tsconfig_def example_metadata_def esBuildSourceMapOptions_def truthy_bool_def or_defs)

text \<open>The eight combinations of the three flags when each is a boolean.\<close>

lemma esBuildSourceMapOptions_table:
  "esBuildSourceMapOptions (tsconfig_with_flags False False False) = SourcemapValue (Some False)"
  "esBuildSourceMapOptions (tsconfig_with_flags False False True) = SourcemapValue (Some False)"
  "esBuildSourceMapOptions (tsconfig_with_flags False True False) = SourcemapInline"
  "esBuildSourceMapOptions (tsconfig_with_flags False True True) = SourcemapInline"
  "esBuildSourceMapOptions (tsconfig_with_flags True False False) = SourcemapValue (Some True)"
  "esBuildSourceMapOptions (tsconfig_with_flags True False True) = SourcemapValue (Some True)"
  "esBuildSourceMapOptions (tsconfig_with_flags True True False) = SourcemapValue (Some False)"
  "esBuildSourceMapOptions (tsconfig_with_flags True True True) = SourcemapValue (Some False)"
  by (simp_all add: tsconfig_with_flags_def esBuildSourceMapOptions_def truthy_bool_def)

text \<open>
  Claim C1. For every combination of \<^verbatim>\<open>sourceMap\<close>, \<^verbatim>\<open>inlineSourceMap\<close> and
  \<^verbatim>\<open>inlineSources\<close>, each true, false or undefined, \<^verbatim>\<open>esBuildSourceMapOptions\<close>
  returns the value of the ordered 4-branch rule: false when \<^verbatim>\<open>inlineSources\<close> is set
  and neither of the other two is; otherwise false when \<^verbatim>\<open>sourceMap\<close> and
  \<^verbatim>\<open>inlineSourceMap\<close> are both set; otherwise \<^verbatim>\<open>"inline"\<close> when
  \<^verbatim>\<open>inlineSourceMap\<close> is set; otherwise the value of \<^verbatim>\<open>sourceMap\<close> as given.
\<close>

theorem esBuildSourceMapOptions_rule:
  "esBuildSourceMapOptions tsConfig =
     sourceMapRule (co_sourceMap (ts_options tsConfig))
       (co_inlineSourceMap (ts_options tsConfig)) (co_inlineSources (ts_options tsConfig))"
  by (cases "co_sourceMap (ts_options tsConfig)"; cases "co_inlineSourceMap (ts_options tsConfig)";
      cases "co_inlineSources (ts_options tsConfig)")
     (auto simp: esBuildSourceMapOptions_def sourceMapRule_def is_set_def truthy_bool_def)

theorem esBuildSourceMapOptions_rule_witness:
  "esBuildSourceMapOptions example_tsconfig = SourcemapInline"
  using esBuildSourceMapOptions_rule [of example_tsconfig]
  by (simp add: example_tsconfig_def sourceMapRule_def is_set_def)



text \<open>
  Claim C3, as the code has it. Every field is resolved with \<^verbatim>\<open>||\<close>, which passes over a
  value that is present but falsy. So: the user's \<^verbatim>\<open>outDir\<close>, \<^verbatim>\<open>target\<close> and
  \<^verbatim>\<open>baseDir\<close> are used whenever they are present and not the empty string; otherwise the
  compiler's value (\<^verbatim>\<open>options.outDir\<close> for \<^verbatim>\<open>outDir\<close>, \<^verbatim>\<open>raw.compilerOptions.target\<close>
  for \<^verbatim>\<open>target\<close>) when it is present and not empty; otherwise the literal default
  (\<^verbatim>\<open>"dist"\<close>, \<^verbatim>\<open>"es6"\<close>, \<^verbatim>\<open>"src"\<close>). The user's \<^verbatim>\<open>minify\<close>, \<^verbatim>\<open>plugins\<close> and
  \<^verbatim>\<open>filePatterns\<close> are used as given whenever present (the patterns followed by the
  exclusion pattern), with the defaults false, the empty list and match-everything.
\<close>

theorem precedence_of_truthy_values:
  assumes "getTSConfig ts (cfg_tsConfigFile u) = Inr (tsConfig, tsConfigFile)"
  shows "\<exists>md. getBuildMetadata ts u = Inr md \<and>
     (\<forall>s. cfg_outDir u = Some s \<longrightarrow> s \<noteq> [] \<longrightarrow> md_outDir md = s) \<and>
     (\<not> truthy_string (cfg_outDir u) \<longrightarrow>
        (\<forall>s. co_outDir (ts_options tsConfig) = Some s \<longrightarrow> s \<noteq> [] \<longrightarrow> md_outDir md = s)) \<and>
     (\<not> truthy_string (cfg_outDir u) \<longrightarrow> \<not> truthy_string (co_outDir (ts_options tsConfig)) \<longrightarrow>
        md_outDir md = ''dist'') \<and>
     (\<forall>s. user_target u = Some s \<longrightarrow> s \<noteq> [] \<longrightarrow> bo_target (md_esbuildOptions md) = s) \<and>
     (\<not> truthy_string (user_target u) \<longrightarrow>
        (\<forall>s. compiler_target tsConfig = Some s \<longrightarrow> s \<noteq> [] \<longrightarrow>
           bo_target (md_esbuildOptions md) = s)) \<and>
     (\<not> truthy_string (user_target u) \<longrightarrow> \<not> truthy_string (compiler_target tsConfig) \<longrightarrow>
        bo_target (md_esbuildOptions md) = ''es6'') \<and>
     (\<forall>b. user_minify u = Some b \<longrightarrow> bo_minify (md_esbuildOptions md) = b) \<and>
     (user_minify u = None \<longrightarrow> bo_minify (md_esbuildOptions md) = False) \<and>
     (\<forall>ps. user_plugins u = Some ps \<longrightarrow> bo_plugins (md_esbuildOptions md) = ps) \<and>
     (user_plugins u = None \<longrightarrow> bo_plugins (md_esbuildOptions md) = []) \<and>
     (\<forall>s. user_baseDir u = Some s \<longrightarrow> s \<noteq> [] \<longrightarrow> ao_baseDir (md_assetsOptions md) = s) \<and>
     (\<not> truthy_string (user_baseDir u) \<longrightarrow> ao_baseDir (md_assetsOptions md) = ''src'') \<and>
     (\<forall>ps. user_filePatterns u = Some ps \<longrightarrow>
        ao_patterns (md_assetsOptions md) = ps @ [''!**/*.{ts,js,tsx,jsx}'']) \<and>
     (user_filePatterns u = None \<longrightarrow>
        ao_patterns (md_assetsOptions md) = [''**'', ''!**/*.{ts,js,tsx,jsx}''])"
  using assms
  by (auto simp: getBuildMetadata_def Let_def or_defs user_target_def user_minify_def
      user_plugins_def user_baseDir_def user_filePatterns_def compiler_target_def
      split: option.splits)

theorem precedence_of_truthy_values_witness:
  "(\<exists>md. getBuildMetadata example_ts full_config = Inr md \<and>
      md_outDir md = ''out'' \<and> bo_target (md_esbuildOptions md) = ''es2020'' \<and>
      bo_minify (md_esbuildOptions md) = True \<and>
      bo_plugins (md_esbuildOptions md) = [Plugin ''p''] \<and>
      ao_baseDir (md_assetsOptions md) = ''assets'' \<and>
      ao_patterns (md_assetsOptions md) = [''**/*.json'', ''!**/*.{ts,js,tsx,jsx}'']) \<and>
   (\<exists>md. getBuildMetadata example_ts example_config = Inr md \<and>
      md_outDir md = ''build'' \<and> bo_target (md_esbuildOptions md) = ''es2017'') \<and>
   (\<exists>md. getBuildMetadata bare_ts blank_config = Inr md \<and>
      md_outDir md = ''dist'' \<and> bo_target (md_esbuildOptions md) = ''es6'' \<and>
      bo_minify (md_esbuildOptions md) = False \<and> bo_plugins (md_esbuildOptions md) = [] \<and>
      ao_baseDir (md_assetsOptions md) = ''src'' \<and>
      ao_patterns (md_assetsOptions md) = [''**'', ''!**/*.{ts,js,tsx,jsx}''])"
proof -
  have full: "getTSConfig example_ts (cfg_tsConfigFile full_config)
      = Inr (example_tsconfig, ''/proj/tsconfig.json'')"
    by (simp add: full_config_def example_getTSConfig)
  have full_vals: "cfg_outDir full_config = Some ''out''"
    "user_target full_config = Some ''es2020''" "user_minify full_config = Some True"
    "user_plugins full_config = Some [Plugin ''p'']"
    "user_baseDir full_config = Some ''assets''"
    "user_filePatterns full_config = Some [''**/*.json'']"
    by (simp_all add: full_config_def user_target_def user_minify_def user_plugins_def
        user_baseDir_def user_filePatterns_def)
  have user: "\<exists>md. getBuildMetadata example_ts full_config = Inr md \<and>
      md_outDir md = ''out'' \<and> bo_target (md_esbuildOptions md) = ''es2020'' \<and>
      bo_minify (md_esbuildOptions md) = True \<and>
      bo_plugins (md_esbuildOptions md) = [Plugin ''p''] \<and>
      ao_baseDir (md_assetsOptions md) = ''assets'' \<and>
      ao_patterns (md_assetsOptions md) = [''**/*.json'', ''!**/*.{ts,js,tsx,jsx}'']"
    using precedence_of_truthy_values [OF full]
    by (auto simp: full_vals truthy_string_def)
  have ex: "getTSConfig example_ts (cfg_tsConfigFile example_config)
      = Inr (example_tsconfig, ''/proj/tsconfig.json'')"
    by (simp add: example_config_def example_getTSConfig)
  have ex_vals: "cfg_outDir example_config = None" "user_target example_config = None"
    "co_outDir (ts_options example_tsconfig) = Some ''build''"
    "compiler_target example_tsconfig = Some ''es2017''"
    by (simp_all add: example_config_def example_tsconfig_def user_target_def
        compiler_target_def)
  have compiler: "\<exists>md. getBuildMetadata example_ts example_config = Inr md \<and>
      md_outDir md = ''build'' \<and> bo_target (md_esbuildOptions md) = ''es2017''"
    using precedence_of_truthy_values [OF ex]
    by (auto simp: ex_vals truthy_string_def)
  have bare: "getTSConfig bare_ts (cfg_tsConfigFile blank_config)
      = Inr (bare_tsconfig, ''/proj/tsconfig.json'')"
    by (simp add: blank_config_def getTSConfig_def bare_ts_def)
  have bare_vals: "cfg_outDir blank_config = None" "user_target blank_config = None"
    "user_minify blank_config = None" "user_plugins blank_config = None"
    "user_baseDir blank_config = None" "user_filePatterns blank_config = None"
    "co_outDir (ts_options bare_tsconfig) = None" "compiler_target bare_tsconfig = None"
    by (simp_all add: blank_config_def bare_tsconfig_def user_target_def user_minify_def
        user_plugins_def user_baseDir_def user_filePatterns_def compiler_target_def)
  have default: "\<exists>md. getBuildMetadata bare_ts blank_config = Inr md \<and>
      md_outDir md = ''dist'' \<and> bo_target (md_esbuildOptions md) = ''es6'' \<and>
      bo_minify (md_esbuildOptions md) = False \<and> bo_plugins (md_esbuildOptions md) = [] \<and>
      ao_baseDir (md_assetsOptions md) = ''src'' \<and>
      ao_patterns (md_assetsOptions md) = [''**'', ''!**/*.{ts,js,tsx,jsx}'']"
    using precedence_of_truthy_values [OF bare]
    by (auto simp: bare_vals truthy_string_def)
  from user compiler default show ?thesis by (intro conjI)
qed

text \<open>A user \<^verbatim>\<open>outDir\<close> that is present and empty is not used: the compiler's is.\<close>

theorem empty_outDir_not_used:
  "cfg_outDir empty_outDir_config = Some [] \<and>
   map_sum id md_outDir (getBuildMetadata example_ts empty_outDir_config) = Inr ''build''"
  by (simp add: getBuildMetadata_def Let_def or_defs empty_outDir_config_def example_getTSConfig
      example_tsconfig_def)

text \<open>
  Claim C7. For every list of compiler-resolved file names and every user configuration,
  whether it lists \<^verbatim>\<open>esbuild.entryPoints\<close> or not, the entry points handed to the build
  are the compiler's file names followed by the user's entry points (none when the user
  lists none), each in its order.
\<close>

theorem entryPoints_compiler_files_first:
  assumes "getTSConfig ts (cfg_tsConfigFile userConfig) = Inr (tsConfig, tsConfigFile)"
  shows "\<exists>md. getBuildMetadata ts userConfig = Inr md \<and>
           bo_entryPoints (md_esbuildOptions md) =
             ts_fileNames tsConfig @
               (case user_entryPoints userConfig of None \<Rightarrow> [] | Some extra \<Rightarrow> extra)"
  using assms
  by (simp add: getBuildMetadata_def Let_def or_list_default_def user_entryPoints_def
      split: option.splits)

theorem entryPoints_compiler_files_first_witness:
  "(\<exists>md. getBuildMetadata example_ts example_config = Inr md \<and>
      bo_entryPoints (md_esbuildOptions md) = [''a.ts'', ''b.ts'', ''extra.ts'']) \<and>
   (\<exists>md. getBuildMetadata bare_ts blank_config = Inr md \<and>
      bo_entryPoints (md_esbuildOptions md) = [''index.ts''])"
proof -
  have ex: "getTSConfig example_ts (cfg_tsConfigFile example_config)
      = Inr (example_tsconfig, ''/proj/tsconfig.json'')"
    by (simp add: example_config_def example_getTSConfig)
  have listed: "\<exists>md. getBuildMetadata example_ts example_config = Inr md \<and>
      bo_entryPoints (md_esbuildOptions md) = [''a.ts'', ''b.ts'', ''extra.ts'']"
    using entryPoints_compiler_files_first [OF ex]
    by (simp add: example_config_def example_tsconfig_def user_entryPoints_def)
  have bare: "getTSConfig bare_ts (cfg_tsConfigFile blank_config)
      = Inr (bare_tsconfig, ''/proj/tsconfig.json'')"
    by (simp add: blank_config_def getTSConfig_def bare_ts_def)
  have absent: "\<exists>md. getBuildMetadata bare_ts blank_config = Inr md \<and>
      bo_entryPoints (md_esbuildOptions md) = [''index.ts'']"
    using entryPoints_compiler_files_first [OF bare]
    by (simp add: blank_config_def bare_tsconfig_def user_entryPoints_def)
  from listed absent show ?thesis by (intro conjI)
qed

text \<open>
  Claim C10. When \<^verbatim>\<open>assets.filePatterns\<close> is present and is the empty list, the
  match-everything default is not put in its place: the asset pattern list is the
  exclusion pattern \<^verbatim>\<open>!**/*.{ts,js,tsx,jsx}\<close> alone.
\<close>

theorem empty_filePatterns_only_exclusion:
  assumes "getBuildMetadata ts userConfig = Inr md"
    and "cfg_assets userConfig = Some a"
    and "ast_filePatterns a = Some []"
  shows "ao_patterns (md_assetsOptions md) = [''!**/*.{ts,js,tsx,jsx}'']"
  using assms by (auto simp: getBuildMetadata_def Let_def or_list_default_def split: sum.splits)

theorem empty_filePatterns_only_exclusion_witness:
  "getBuildMetadata example_ts example_config = Inr example_metadata \<and>
   cfg_assets example_config = Some \<lparr>ast_baseDir = None, ast_filePatterns = Some []\<rparr> \<and>
   ao_patterns (md_assetsOptions example_metadata) = [''!**/*.{ts,js,tsx,jsx}'']"
  using empty_filePatterns_only_exclusion
    [OF getBuildMetadata_example, of "\<lparr>ast_baseDir = None, ast_filePatterns = Some []\<rparr>"]
    getBuildMetadata_example
  by (simp add: example_config_def)

section \<open>Properties of the asset copy\<close>

lemma split_from_append:
  "split_from c cur (xs @ c # ys) = split_from c cur xs @ split_from c [] ys"
  by (induction xs arbitrary: cur) auto

lemma split_from_plain: "c \<notin> set p \<Longrightarrow> split_from c cur p = [cur @ p]"
  by (induction p arbitrary: cur) auto

lemma normalizeString_append:
  "normalizeString res (xs @ ys) = normalizeString (normalizeString res xs) ys"
  by (induction xs arbitrary: res) auto

lemma drop_common_prefix:
  "x \<noteq> y \<Longrightarrow> drop_common (ps @ [x]) (ps @ [y]) = ([x], [y])"
  by (induction ps) auto

lemma posix_relative_src_dist: "posix_relative wd ''src'' ''dist'' = ''../dist''"
proof -
  define ps where "ps = normalizeString [] (split_on CHR ''/'' wd)"
  have s: "posix_resolve wd ''src'' = ps @ [''src'']"
    by (simp add: posix_resolve_def split_on_def split_from_append split_from_plain
        normalizeString_append ps_def)
  have d: "posix_resolve wd ''dist'' = ps @ [''dist'']"
    by (simp add: posix_resolve_def split_on_def split_from_append split_from_plain
        normalizeString_append ps_def)
  show ?thesis
    by (simp add: posix_relative_def s d drop_common_prefix)
qed

text \<open>
  Claim C9. For every asset-options record, \<^verbatim>\<open>copyNonSourceFiles\<close> makes one call of the
  copy utility, with the working directory \<^verbatim>\<open>baseDir\<close> and the destination
  \<^verbatim>\<open>path.relative(baseDir, outDir)\<close>; with POSIX paths, \<^verbatim>\<open>baseDir\<close> \<^verbatim>\<open>"src"\<close> and
  \<^verbatim>\<open>outDir\<close> \<^verbatim>\<open>"dist"\<close> give the destination \<^verbatim>\<open>"../dist"\<close>, whatever the process's
  working directory.
\<close>

theorem copyNonSourceFiles_destination:
  "(\<exists>call. copyNonSourceFiles sv assetsOptions = ([CpyStart call], cpy sv call) \<and>
      cpy_cwd call = ao_baseDir assetsOptions \<and>
      cpy_destination call =
        path_relative sv (ao_baseDir assetsOptions) (ao_outDir assetsOptions) \<and>
      cpy_patterns call = ao_patterns assetsOptions \<and> cpy_parents call) \<and>
   (path_relative sv = posix_relative wd \<longrightarrow> ao_baseDir assetsOptions = ''src'' \<longrightarrow>
      ao_outDir assetsOptions = ''dist'' \<longrightarrow>
      (\<exists>call. fst (copyNonSourceFiles sv assetsOptions) = [CpyStart call] \<and>
         cpy_cwd call = ''src'' \<and> cpy_destination call = ''../dist''))"
  by (simp add: copyNonSourceFiles_def Let_def posix_relative_src_dist)

theorem copyNonSourceFiles_destination_witness:
  "\<exists>call. fst (copyNonSourceFiles example_services example_assetsOptions) = [CpyStart call] \<and>
     cpy_cwd call = ''src'' \<and> cpy_destination call = ''../dist''"
  using copyNonSourceFiles_destination [of example_services example_assetsOptions "''/proj''"]
  by (simp add: example_services_def example_assetsOptions_def)

section \<open>Properties of watch mode\<close>

lemma example_copy:
  "copyNonSourceFiles example_services example_assetsOptions =
     ([CpyStart \<lparr>cpy_patterns = [''**'', ''!**/*.{ts,js,tsx,jsx}''],
                 cpy_destination = ''../dist'', cpy_cwd = ''src'', cpy_parents = True\<rparr>],
      Inr [''dist/data.json''])"
  by (simp add: copyNonSourceFiles_def Let_def example_services_def example_assetsOptions_def
      posix_relative_src_dist)

lemma example_watchBuild:
  "watchBuild example_services ''dist'' example_esbuildOptions example_assetsOptions =
     ([RimrafSync ''dist'', ConsoleTime ''Initial build in'',
       BuildStart \<lparr>call_options = example_esbuildOptions, call_bundle = False,
          call_format = ''cjs'', call_platform = ''node'', call_incremental = Some True\<rparr>,
       BuildDone, ConsoleTimeEnd ''Initial build in'', ConsoleTime ''Initial assets copied in'',
       CpyStart \<lparr>cpy_patterns = [''**'', ''!**/*.{ts,js,tsx,jsx}''],
                 cpy_destination = ''../dist'', cpy_cwd = ''src'', cpy_parents = True\<rparr>,
       CpyDone, ConsoleTimeEnd ''Initial assets copied in'', ConsoleLogIgnored ''dist/**'',
       ChokidarWatch [''**'', ''!**/*.{ts,js,tsx,jsx}''] ''dist/**'',
       ChokidarWatch [''src/a.ts''] ''dist/**''],
      Inr \<lparr>assetWatcher =
             \<lparr>watch_paths = [''**'', ''!**/*.{ts,js,tsx,jsx}''], watch_ignored = ''dist/**'',
              watch_on_change = CopyAssets example_assetsOptions\<rparr>,
           codeWatcher =
             \<lparr>watch_paths = [''src/a.ts''], watch_ignored = ''dist/**'',
              watch_on_change = Rebuild ''handle''\<rparr>\<rparr>)"
  unfolding watchBuild_def example_copy
  by (simp add: Let_def example_services_def example_assetsOptions_def example_esbuildOptions_def)

text \<open>
  Claim C6. Before the watchers start, watch mode runs strictly in sequence: the output
  directory is deleted first and once; then, if the deletion did not throw, exactly one
  build is started, with \<^verbatim>\<open>incremental: true\<close>; the one asset copy starts only after that
  build's promise was fulfilled, and the watchers are created only after the copy's was.
  The handle the build returned is the one the code watcher rebuilds with.
\<close>

theorem watchBuild_initial_sequence:
  assumes "watchBuild sv outDir esbuildOptions assetsOptions = (tr, res)"
  shows "hd tr = RimrafSync outDir \<and> length (filter is_RimrafSync tr) = 1 \<and>
         (rimraf_sync sv outDir = None \<longrightarrow>
            filter is_BuildStart tr =
              [BuildStart \<lparr>call_options = esbuildOptions, call_bundle = False,
                 call_format = ''cjs'', call_platform = ''node'',
                 call_incremental = Some True\<rparr>]) \<and>
         length (filter is_CpyStart tr) =
           (if rimraf_sync sv outDir = None \<and>
               \<not> isl (esbuild_build sv
                      \<lparr>call_options = esbuildOptions, call_bundle = False,
                       call_format = ''cjs'', call_platform = ''node'',
                       call_incremental = Some True\<rparr>)
            then 1 else 0) \<and>
         (\<forall>call. CpyStart call \<in> set tr \<longrightarrow> happens_before BuildDone (CpyStart call) tr) \<and>
         (\<forall>ps ig. ChokidarWatch ps ig \<in> set tr \<longrightarrow>
            happens_before CpyDone (ChokidarWatch ps ig) tr) \<and>
         (\<forall>ws. res = Inr ws \<longrightarrow>
            (\<exists>builder.
               esbuild_build sv
                 \<lparr>call_options = esbuildOptions, call_bundle = False, call_format = ''cjs'',
                  call_platform = ''node'', call_incremental = Some True\<rparr> = Inr builder \<and>
               watch_on_change (codeWatcher ws) = Rebuild builder))"
  using assms
  by (auto simp: watchBuild_def copyNonSourceFiles_def Let_def happens_before_def
      split: option.splits sum.splits prod.splits)

theorem watchBuild_initial_sequence_witness:
  "hd (fst (watchBuild example_services ''dist'' example_esbuildOptions example_assetsOptions))
     = RimrafSync ''dist'' \<and>
   length (filter is_RimrafSync
     (fst (watchBuild example_services ''dist'' example_esbuildOptions example_assetsOptions))) = 1 \<and>
   filter is_BuildStart
     (fst (watchBuild example_services ''dist'' example_esbuildOptions example_assetsOptions))
     = [BuildStart \<lparr>call_options = example_esbuildOptions, call_bundle = False,
          call_format = ''cjs'', call_platform = ''node'', call_incremental = Some True\<rparr>] \<and>
   happens_before BuildDone
     (CpyStart \<lparr>cpy_patterns = [''**'', ''!**/*.{ts,js,tsx,jsx}''],
                cpy_destination = ''../dist'', cpy_cwd = ''src'', cpy_parents = True\<rparr>)
     (fst (watchBuild example_services ''dist'' example_esbuildOptions example_assetsOptions)) \<and>
   happens_before CpyDone (ChokidarWatch [''src/a.ts''] ''dist/**'')
     (fst (watchBuild example_services ''dist'' example_esbuildOptions example_assetsOptions))"
proof -
  note t = watchBuild_initial_sequence [OF example_watchBuild]
  have deleted: "rimraf_sync example_services ''dist'' = None"
    by (simp add: example_services_def)
  note one_build = t [THEN conjunct2, THEN conjunct2, THEN conjunct1, rule_format, OF deleted]
  note copy_after_build = t [THEN conjunct2, THEN conjunct2, THEN conjunct2, THEN conjunct2,
      THEN conjunct1, rule_format]
  note watch_after_copy = t [THEN conjunct2, THEN conjunct2, THEN conjunct2, THEN conjunct2,
      THEN conjunct2, THEN conjunct1, rule_format]
  show ?thesis
    unfolding example_watchBuild fst_conv
    by (intro conjI t [THEN conjunct1] t [THEN conjunct2, THEN conjunct1] one_build
        copy_after_build watch_after_copy) simp_all
qed

text \<open>Every watch subscription that watch mode creates is given the pattern
  \<^verbatim>\<open>outDir + "/**"\<close> as \<^verbatim>\<open>ignored\<close>, whatever the form of \<^verbatim>\<open>outDir\<close>.\<close>

lemma watchBuild_passes_ignored:
  assumes "watchBuild sv outDir esbuildOptions assetsOptions = (tr, res)"
  shows "(\<forall>ps ig. ChokidarWatch ps ig \<in> set tr \<longrightarrow> ig = outDir @ ''/**'') \<and>
         (\<forall>ws. res = Inr ws \<longrightarrow>
            filter is_ChokidarWatch tr =
              [ChokidarWatch (ao_patterns assetsOptions) (outDir @ ''/**''),
               ChokidarWatch (bo_entryPoints esbuildOptions) (outDir @ ''/**'')] \<and>
            watch_paths (assetWatcher ws) = ao_patterns assetsOptions \<and>
            watch_ignored (assetWatcher ws) = outDir @ ''/**'' \<and>
            watch_paths (codeWatcher ws) = bo_entryPoints esbuildOptions \<and>
            watch_ignored (codeWatcher ws) = outDir @ ''/**'')"
  using assms
  by (auto simp: watchBuild_def copyNonSourceFiles_def Let_def
      split: option.splits sum.splits prod.splits)

lemma getBuildMetadata_resolved:
  "getBuildMetadata resolved_ts blank_config = Inr resolved_metadata"
  by (simp add: getBuildMetadata_def Let_def getTSConfig_def resolved_ts_def blank_config_def
      resolved_tsconfig_def resolved_metadata_def esBuildSourceMapOptions_def truthy_bool_def
      or_defs)

lemma posix_relative_src_proj_dist: "posix_relative ''/proj'' ''src'' ''/proj/dist'' = ''../dist''"
  by (simp add: posix_relative_def posix_resolve_def split_on_def)

text \<open>
  Claim C8, at the project whose output directory comes from \<^verbatim>\<open>tsconfig.json\<close>. The
  resolved \<^verbatim>\<open>outDir\<close> is the absolute path \<^verbatim>\<open>/proj/dist\<close>, and watch mode creates both
  watchers with the absolute pattern \<^verbatim>\<open>/proj/dist/**\<close> as \<^verbatim>\<open>ignored\<close>, the asset watcher
  over the patterns \<^verbatim>\<open>**\<close> and \<^verbatim>\<open>!**/*.{ts,js,tsx,jsx}\<close>, which are relative to the
  working directory \<^verbatim>\<open>/proj\<close>. (chokidar, which is not part of this development, tests
  the paths it finds under a relative pattern in their relative form, \<^verbatim>\<open>dist/data.json\<close>
  for a copied asset; an absolute pattern matches no such path, so these arguments do not
  keep the output directory out of the asset watcher.)
\<close>

theorem watchBuild_absolute_outDir:
  "getBuildMetadata resolved_ts blank_config = Inr resolved_metadata \<and>
   watchBuild example_services (md_outDir resolved_metadata)
     (md_esbuildOptions resolved_metadata) (md_assetsOptions resolved_metadata) =
     ([RimrafSync ''/proj/dist'', ConsoleTime ''Initial build in'',
       BuildStart \<lparr>call_options = md_esbuildOptions resolved_metadata, call_bundle = False,
          call_format = ''cjs'', call_platform = ''node'', call_incremental = Some True\<rparr>,
       BuildDone, ConsoleTimeEnd ''Initial build in'', ConsoleTime ''Initial assets copied in'',
       CpyStart \<lparr>cpy_patterns = [''**'', ''!**/*.{ts,js,tsx,jsx}''],
                 cpy_destination = ''../dist'', cpy_cwd = ''src'', cpy_parents = True\<rparr>,
       CpyDone, ConsoleTimeEnd ''Initial assets copied in'',
       ConsoleLogIgnored ''/proj/dist/**'',
       ChokidarWatch [''**'', ''!**/*.{ts,js,tsx,jsx}''] ''/proj/dist/**'',
       ChokidarWatch [''/proj/src/index.ts''] ''/proj/dist/**''],
      Inr \<lparr>assetWatcher =
             \<lparr>watch_paths = [''**'', ''!**/*.{ts,js,tsx,jsx}''],
              watch_ignored = ''/proj/dist/**'',
              watch_on_change = CopyAssets (md_assetsOptions resolved_metadata)\<rparr>,
           codeWatcher =
             \<lparr>watch_paths = [''/proj/src/index.ts''], watch_ignored = ''/proj/dist/**'',
              watch_on_change = Rebuild ''handle''\<rparr>\<rparr>)"
  by (simp add: getBuildMetadata_resolved watchBuild_def copyNonSourceFiles_def Let_def
      example_services_def resolved_metadata_def posix_relative_src_proj_dist)

section \<open>Properties of one-shot mode\<close>

lemma promise_all_fulfilled_iff:
  "promise_all pb pc rb rc settled = Fulfilled (b, c) \<longleftrightarrow>
     (\<forall>t \<in> set settled. failure pb pc t = None) \<and>
     (if BuildTask \<in> set settled then pb = Inr b else rb = Some b) \<and>
     (if CopyTask \<in> set settled then pc = Inr c else rc = Some c)"
proof (induction settled arbitrary: rb rc)
  case Nil
  then show ?case by (auto split: option.splits)
next
  case (Cons t ts)
  then show ?case
    by (cases t; cases pb; cases pc) (auto simp: failure_def)
qed

lemma promise_all_first_failure:
  "\<forall>t' \<in> set pre. failure pb pc t' = None \<Longrightarrow> failure pb pc t = Some e \<Longrightarrow>
     promise_all pb pc rb rc (pre @ t # post) = Rejected e"
proof (induction pre arbitrary: rb rc)
  case Nil
  then show ?case by (cases t; cases pb; cases pc) (auto simp: failure_def)
next
  case (Cons p pre)
  then show ?case by (cases p; cases pb; cases pc) (auto simp: failure_def)
qed

lemma promise_all_rejected_reason:
  "promise_all pb pc rb rc settled = Rejected e \<Longrightarrow> \<exists>t \<in> set settled. failure pb pc t = Some e"
proof (induction settled arbitrary: rb rc)
  case Nil
  then show ?case by (auto split: option.splits)
next
  case (Cons t ts)
  then show ?case by (cases t; cases pb; cases pc) (auto simp: failure_def)
qed

lemma normalBuild_started:
  "rimraf_sync sv outDir = None \<Longrightarrow>
   normalBuild sv outDir eo ao settled =
     ([RimrafSync outDir] @ fst (buildSourceFiles sv eo) @ fst (copyNonSourceFiles sv ao),
      promise_all (snd (buildSourceFiles sv eo)) (snd (copyNonSourceFiles sv ao)) None None settled)"
  by (simp add: normalBuild_def split: prod.splits)

lemma example_build:
  "buildSourceFiles example_services example_esbuildOptions =
     ([BuildStart \<lparr>call_options = example_esbuildOptions, call_bundle = False,
         call_format = ''cjs'', call_platform = ''node'', call_incremental = None\<rparr>],
      Inr ''handle'')"
  by (simp add: buildSourceFiles_def Let_def example_services_def)

text \<open>
  Claim C4, as the code has it. When the deletion of the output directory has not
  thrown, the build and the copy are both started, in this order, before anything is
  waited for. The run is fulfilled, with both results, exactly when both promises have
  been fulfilled. It is rejected as soon as the first promise is rejected, with that
  promise's error, whether or not the other operation has finished; a rejection always
  carries the error of an operation that failed.
\<close>

theorem normalBuild_join:
  assumes "rimraf_sync sv outDir = None"
    and "buildSourceFiles sv esbuildOptions = (tb, pb)"
    and "copyNonSourceFiles sv assetsOptions = (tc, pc)"
    and "normalBuild sv outDir esbuildOptions assetsOptions settled = (tr, p)"
  shows "tr = [RimrafSync outDir] @ tb @ tc \<and>
         (\<exists>bcall ccall. tb = [BuildStart bcall] \<and> tc = [CpyStart ccall]) \<and>
         (\<forall>b c. p = Fulfilled (b, c) \<longleftrightarrow>
            pb = Inr b \<and> pc = Inr c \<and> BuildTask \<in> set settled \<and> CopyTask \<in> set settled) \<and>
         (\<forall>pre t post e. settled = pre @ t # post \<longrightarrow>
            (\<forall>t' \<in> set pre. failure pb pc t' = None) \<longrightarrow> failure pb pc t = Some e \<longrightarrow>
            p = Rejected e) \<and>
         (\<forall>e. p = Rejected e \<longrightarrow> (\<exists>t \<in> set settled. failure pb pc t = Some e))"
proof -
  have run: "tr = [RimrafSync outDir] @ tb @ tc" "p = promise_all pb pc None None settled"
    using assms by (simp_all add: normalBuild_started)
  have calls: "\<exists>bcall ccall. tb = [BuildStart bcall] \<and> tc = [CpyStart ccall]"
    using assms(2,3) by (auto simp: buildSourceFiles_def copyNonSourceFiles_def Let_def)
  have ful: "\<forall>b c. p = Fulfilled (b, c) \<longleftrightarrow>
      pb = Inr b \<and> pc = Inr c \<and> BuildTask \<in> set settled \<and> CopyTask \<in> set settled"
  proof (intro allI iffI)
    fix b c assume "p = Fulfilled (b, c)"
    then show "pb = Inr b \<and> pc = Inr c \<and> BuildTask \<in> set settled \<and> CopyTask \<in> set settled"
      unfolding run(2) promise_all_fulfilled_iff by (auto split: if_splits)
  next
    fix b c assume h: "pb = Inr b \<and> pc = Inr c \<and> BuildTask \<in> set settled \<and> CopyTask \<in> set settled"
    have "\<forall>t \<in> set settled. failure pb pc t = None"
      using h by (auto simp: failure_def split: task.splits)
    then show "p = Fulfilled (b, c)"
      unfolding run(2) promise_all_fulfilled_iff using h by simp
  qed
  have rej: "\<forall>pre t post e. settled = pre @ t # post \<longrightarrow>
      (\<forall>t' \<in> set pre. failure pb pc t' = None) \<longrightarrow> failure pb pc t = Some e \<longrightarrow> p = Rejected e"
    unfolding run(2) by (auto intro: promise_all_first_failure)
  have why: "\<forall>e. p = Rejected e \<longrightarrow> (\<exists>t \<in> set settled. failure pb pc t = Some e)"
    unfolding run(2) by (auto dest: promise_all_rejected_reason)
  from run(1) calls ful rej why show ?thesis by blast
qed

theorem normalBuild_join_witness:
  "normalBuild example_services ''dist'' example_esbuildOptions example_assetsOptions
     [CopyTask, BuildTask] =
     ([RimrafSync ''dist'',
       BuildStart \<lparr>call_options = example_esbuildOptions, call_bundle = False,
          call_format = ''cjs'', call_platform = ''node'', call_incremental = None\<rparr>,
       CpyStart \<lparr>cpy_patterns = [''**'', ''!**/*.{ts,js,tsx,jsx}''],
                 cpy_destination = ''../dist'', cpy_cwd = ''src'', cpy_parents = True\<rparr>],
      Fulfilled (''handle'', [''dist/data.json'']))"
proof -
  have r: "rimraf_sync example_services ''dist'' = None"
    by (simp add: example_services_def)
  obtain tr p where run:
    "normalBuild example_services ''dist'' example_esbuildOptions example_assetsOptions
       [CopyTask, BuildTask] = (tr, p)"
    by (cases "normalBuild example_services ''dist'' example_esbuildOptions example_assetsOptions
       [CopyTask, BuildTask]")
  from normalBuild_join [OF r example_build example_copy run]
  have "tr = [RimrafSync ''dist''] @
      [BuildStart \<lparr>call_options = example_esbuildOptions, call_bundle = False,
          call_format = ''cjs'', call_platform = ''node'', call_incremental = None\<rparr>] @
      [CpyStart \<lparr>cpy_patterns = [''**'', ''!**/*.{ts,js,tsx,jsx}''],
                 cpy_destination = ''../dist'', cpy_cwd = ''src'', cpy_parents = True\<rparr>]"
    and "p = Fulfilled (''handle'', [''dist/data.json''])"
    by simp_all
  with run show ?thesis by simp
qed

text \<open>The build is rejected while the copy is still running: the run is over, and the
  copy has not finished.\<close>

theorem normalBuild_rejects_before_copy_settles:
  "snd (normalBuild failing_build_services ''dist'' example_esbuildOptions example_assetsOptions
          [BuildTask]) = Rejected (Error ''build failed'') \<and>
   CopyTask \<notin> set [BuildTask]"
  by (simp add: normalBuild_def buildSourceFiles_def copyNonSourceFiles_def Let_def
      failing_build_services_def)

end
